theory Spec2Isabelle
  imports Complex_Main
begin

section \<open>float64 values\<close>

text \<open>
  The program computes on Go \<^verbatim>\<open>float64\<close> values. They are modelled by their value:
  not-a-number, the two infinities, and the finite numbers as reals. The special values
  follow IEEE 754 and the documentation of Go's \<^verbatim>\<open>math\<close> package. Finite
  arithmetic is exact here: rounding to 53 bits, overflow of a finite result to an
  infinity and underflow are not represented, and the two zeros are one value, the
  positive zero (\<^verbatim>\<open>-0 == 0\<close> in Go, so no comparison of the program tells them apart;
  the program divides by the constants 16 and 10 only and raises to the power 2 and the
  base 10 only, where the sign of a zero makes no difference either).
\<close>

datatype f64 = NaN | NInf | Fin real | PInf

text \<open>The infinity that has the sign of a non-zero real.\<close>

definition inf_of :: "real \<Rightarrow> f64" where
  "inf_of s = (if s < 0 then NInf else PInf)"

text \<open>Go's \<^verbatim>\<open>x <= y\<close>, \<^verbatim>\<open>x == y\<close> and \<^verbatim>\<open>x != y\<close>: a comparison with NaN is
  false, except \<^verbatim>\<open>!=\<close>, which is true.\<close>

fun f_le :: "f64 \<Rightarrow> f64 \<Rightarrow> bool" where
  "f_le NaN y = False"
| "f_le x NaN = False"
| "f_le NInf y = True"
| "f_le x PInf = True"
| "f_le (Fin a) (Fin b) = (a \<le> b)"
| "f_le x y = False"

fun f_eq :: "f64 \<Rightarrow> f64 \<Rightarrow> bool" where
  "f_eq NaN y = False"
| "f_eq x NaN = False"
| "f_eq x y = (x = y)"

definition f_ne :: "f64 \<Rightarrow> f64 \<Rightarrow> bool" where
  "f_ne x y = (\<not> f_eq x y)"

text \<open>Go's \<^verbatim>\<open>x + y\<close>, \<^verbatim>\<open>x - y\<close>, \<^verbatim>\<open>x * y\<close> and \<^verbatim>\<open>x / y\<close>.\<close>

fun f_add :: "f64 \<Rightarrow> f64 \<Rightarrow> f64" where
  "f_add NaN y = NaN"
| "f_add x NaN = NaN"
| "f_add PInf NInf = NaN"
| "f_add NInf PInf = NaN"
| "f_add PInf y = PInf"
| "f_add x PInf = PInf"
| "f_add NInf y = NInf"
| "f_add x NInf = NInf"
| "f_add (Fin a) (Fin b) = Fin (a + b)"

fun f_neg :: "f64 \<Rightarrow> f64" where
  "f_neg NaN = NaN"
| "f_neg NInf = PInf"
| "f_neg PInf = NInf"
| "f_neg (Fin a) = Fin (- a)"

definition f_sub :: "f64 \<Rightarrow> f64 \<Rightarrow> f64" where
  "f_sub x y = f_add x (f_neg y)"

fun f_mul :: "f64 \<Rightarrow> f64 \<Rightarrow> f64" where
  "f_mul NaN y = NaN"
| "f_mul x NaN = NaN"
| "f_mul (Fin a) (Fin b) = Fin (a * b)"
| "f_mul (Fin a) PInf = (if a = 0 then NaN else inf_of a)"
| "f_mul (Fin a) NInf = (if a = 0 then NaN else inf_of (- a))"
| "f_mul PInf (Fin b) = (if b = 0 then NaN else inf_of b)"
| "f_mul NInf (Fin b) = (if b = 0 then NaN else inf_of (- b))"
| "f_mul PInf PInf = PInf"
| "f_mul NInf NInf = PInf"
| "f_mul PInf NInf = NInf"
| "f_mul NInf PInf = NInf"

text \<open>A finite non-zero number divided by zero is the infinity of its sign, the divisor
  being taken as the positive zero.\<close>

fun f_div :: "f64 \<Rightarrow> f64 \<Rightarrow> f64" where
  "f_div NaN y = NaN"
| "f_div x NaN = NaN"
| "f_div (Fin a) (Fin b) =
     (if b = 0 then (if a = 0 then NaN else inf_of a) else Fin (a / b))"
| "f_div (Fin a) PInf = Fin 0"
| "f_div (Fin a) NInf = Fin 0"
| "f_div PInf (Fin b) = inf_of b"
| "f_div NInf (Fin b) = inf_of (- b)"
| "f_div x y = NaN"

subsection \<open>The functions of Go's math package that the program calls\<close>

text \<open>\<^verbatim>\<open>math.Ceil\<close>: \<^verbatim>\<open>Ceil(\<plusminus>Inf) = \<plusminus>Inf\<close>, \<^verbatim>\<open>Ceil(NaN) = NaN\<close>.\<close>

fun math_Ceil :: "f64 \<Rightarrow> f64" where
  "math_Ceil (Fin a) = Fin (of_int \<lceil>a\<rceil>)"
| "math_Ceil x = x"

text \<open>\<^verbatim>\<open>math.Max\<close>: \<^verbatim>\<open>Max(x, +Inf) = Max(+Inf, x) = +Inf\<close>, then
  \<^verbatim>\<open>Max(x, NaN) = Max(NaN, x) = NaN\<close>, in this order. \<^verbatim>\<open>math.Min\<close> is its mirror
  image with \<^verbatim>\<open>-Inf\<close>.\<close>

definition math_Max :: "f64 \<Rightarrow> f64 \<Rightarrow> f64" where
  "math_Max x y =
     (if x = PInf \<or> y = PInf then PInf
      else if x = NaN \<or> y = NaN then NaN
      else if f_le y x then x else y)"

definition math_Min :: "f64 \<Rightarrow> f64 \<Rightarrow> f64" where
  "math_Min x y =
     (if x = NInf \<or> y = NInf then NInf
      else if x = NaN \<or> y = NaN then NaN
      else if f_le x y then x else y)"

text \<open>\<^verbatim>\<open>math.Log10\<close>: \<^verbatim>\<open>Log10(+Inf) = +Inf\<close>, \<^verbatim>\<open>Log10(0) = -Inf\<close>,
  \<^verbatim>\<open>Log10(x < 0) = NaN\<close>, \<^verbatim>\<open>Log10(NaN) = NaN\<close>.\<close>

fun math_Log10 :: "f64 \<Rightarrow> f64" where
  "math_Log10 NaN = NaN"
| "math_Log10 PInf = PInf"
| "math_Log10 NInf = NaN"
| "math_Log10 (Fin a) = (if a = 0 then NInf else if a < 0 then NaN else Fin (log 10 a))"

text \<open>\<^verbatim>\<open>math.Sqrt\<close>: \<^verbatim>\<open>Sqrt(+Inf) = +Inf\<close>, \<^verbatim>\<open>Sqrt(x < 0) = NaN\<close>,
  \<^verbatim>\<open>Sqrt(NaN) = NaN\<close>.\<close>

fun math_Sqrt :: "f64 \<Rightarrow> f64" where
  "math_Sqrt NaN = NaN"
| "math_Sqrt PInf = PInf"
| "math_Sqrt NInf = NaN"
| "math_Sqrt (Fin a) = (if a < 0 then NaN else Fin (sqrt a))"

text \<open>\<^verbatim>\<open>math.Pow\<close>, with the special cases in the order of its implementation:
  \<^verbatim>\<open>Pow(x, 0) = 1\<close> and \<^verbatim>\<open>Pow(1, y) = 1\<close> for any argument, \<^verbatim>\<open>Pow(x, 1) = x\<close>, then NaN,
  then a zero base, an infinite exponent, an infinite base, and last the finite case, which
  is NaN for a negative base and an exponent that is no integer.\<close>

definition is_int :: "real \<Rightarrow> bool" where
  "is_int b = (of_int \<lfloor>b\<rfloor> = b)"

definition is_odd_int :: "real \<Rightarrow> bool" where
  "is_odd_int b = (is_int b \<and> odd \<lfloor>b\<rfloor>)"

definition math_Pow :: "f64 \<Rightarrow> f64 \<Rightarrow> f64" where
  "math_Pow x y =
     (if y = Fin 0 \<or> x = Fin 1 then Fin 1
      else if y = Fin 1 then x
      else if x = NaN \<or> y = NaN then NaN
      else (case (x, y) of
          (Fin a, Fin b) \<Rightarrow>
            (if a = 0 then (if b < 0 then PInf else Fin 0)
             else if 0 < a then Fin (a powr b)
             else if is_odd_int b then Fin (- (\<bar>a\<bar> powr b))
             else if is_int b then Fin (\<bar>a\<bar> powr b)
             else NaN)
        | (Fin a, PInf) \<Rightarrow>
            (if a = 0 then Fin 0 else if a = - 1 then Fin 1
             else if \<bar>a\<bar> < 1 then Fin 0 else PInf)
        | (Fin a, NInf) \<Rightarrow>
            (if a = 0 then PInf else if a = - 1 then Fin 1
             else if \<bar>a\<bar> < 1 then PInf else Fin 0)
        | (PInf, Fin b) \<Rightarrow> (if b < 0 then Fin 0 else PInf)
        | (NInf, Fin b) \<Rightarrow>
            (if b < 0 then Fin 0 else if is_odd_int b then NInf else PInf)
        | (_, NInf) \<Rightarrow> Fin 0
        | (_, _) \<Rightarrow> PInf))"

section \<open>Device descriptors\<close>

definition volumeDenominations :: f64 where
  "volumeDenominations = Fin 16"

definition scaleLinear :: string where
  "scaleLinear = ''linear''"

definition scaleLog :: string where
  "scaleLog = ''log''"

text \<open>The struct \<^verbatim>\<open>Device\<close>. Its fields \<^verbatim>\<open>Max\<close> and \<^verbatim>\<open>Min\<close> are named
  \<open>Max_f\<close> and \<open>Min_f\<close> here.\<close>

record Device =
  Property :: string
  MuteProperty :: string
  Scale :: string
  Max_f :: f64
  Min_f :: f64
  ZeroVolume :: f64

definition main_device :: Device where
  "main_device =
     \<lparr> Property = ''datastore/ext/obank/1/ch/0/stereoTrim'',
       MuteProperty = ''datastore/mix/main/0/matrix/mute'',
       Scale = scaleLinear,
       Max_f = Fin 0,
       Min_f = Fin (- 50),
       ZeroVolume = Fin (- 127) \<rparr>"

definition computer_device :: Device where
  "computer_device =
     \<lparr> Property = ''datastore/mix/chan/10/matrix/fader'',
       MuteProperty = ''datastore/mix/chan/10/matrix/mute'',
       Scale = scaleLog,
       Max_f = Fin 0,
       Min_f = Fin (- 64),
       ZeroVolume = Fin 0 \<rparr>"

text \<open>The table \<^verbatim>\<open>devices\<close>, from a device name to its descriptor.\<close>

definition devices :: "string \<rightharpoonup> Device" where
  "devices = [''main'' \<mapsto> main_device, ''computer'' \<mapsto> computer_device]"

section \<open>The volume stepping\<close>

text \<open>A call either returns a value or panics with a message.\<close>

datatype 'a outcome = Return 'a | Panic string

text \<open>\<^verbatim>\<open>newVolumeLinear\<close>. The receiver is not used by the function and is left out.\<close>

definition newVolumeLinear :: "Device \<Rightarrow> f64 \<Rightarrow> bool \<Rightarrow> f64" where
  "newVolumeLinear d current inc =
     (let delta = f_div (f_sub (Max_f d) (Min_f d)) volumeDenominations;
          newVolume = (if inc then f_add (math_Ceil current) delta
                       else f_sub (math_Ceil current) delta)
      in if \<not> inc \<and> f_le newVolume (Min_f d) then ZeroVolume d
         else math_Min (math_Max newVolume (Min_f d)) (Max_f d))"

text \<open>The two conversions of \<^verbatim>\<open>newVolumeLog\<close>, which the source writes inline: from
  the amplitude ratio to decibels, \<^verbatim>\<open>10 * math.Log10(math.Pow(current, 2))\<close>, and back,
  \<^verbatim>\<open>math.Sqrt(math.Pow(10, newDB/10))\<close>.\<close>

definition ratio_to_dB :: "f64 \<Rightarrow> f64" where
  "ratio_to_dB current = f_mul (Fin 10) (math_Log10 (math_Pow current (Fin 2)))"

definition dB_to_ratio :: "f64 \<Rightarrow> f64" where
  "dB_to_ratio newDB = math_Sqrt (math_Pow (Fin 10) (f_div newDB (Fin 10)))"

text \<open>\<^verbatim>\<open>newVolumeLog\<close>.\<close>

definition newVolumeLog :: "Device \<Rightarrow> f64 \<Rightarrow> bool \<Rightarrow> f64 outcome" where
  "newVolumeLog d current inc =
     (let currentDB = ratio_to_dB current;
          delta = f_div (f_sub (Max_f d) (Min_f d)) volumeDenominations;
          newDB = (if inc then f_add (math_Ceil currentDB) delta
                   else f_sub (math_Ceil currentDB) delta)
      in if \<not> inc \<and> f_le newDB (Min_f d) then
           (if f_ne (ZeroVolume d) (Fin 0)
            then Panic ''logarithmic zero volume should be zero''
            else Return (ZeroVolume d))
         else
           (let newDB' = math_Min (math_Max newDB (Min_f d)) (Max_f d);
                newAmpRatio = dB_to_ratio newDB'
            in Return (math_Min (math_Max newAmpRatio (Fin 0)) (Fin 1))))"

section \<open>The remote property store and the commands\<close>

text \<open>
  The device is reached over HTTP. What a GET of a property path yields is an input of
  the model: the request fails, the body cannot be read, the body is not the JSON of a
  number, or it holds a number. For a PATCH of a property path with a value, the request
  cannot be created, or it cannot be made, or it is delivered. The PATCH requests
  delivered and the sounds played are the effects, kept in the state.
\<close>

datatype reply = RequestFails | BodyFails | NotJSON | Value f64

datatype patch_reply = NotCreated | NotMade | Delivered

record MotuClient =
  http_get :: "string \<Rightarrow> reply"
  http_patch :: "string \<Rightarrow> f64 \<Rightarrow> patch_reply"

record world =
  patches :: "(string \<times> f64) list"
  afplay_fails :: bool
  sounds :: nat

text \<open>The error values of the program; a wrapped error carries the one it wraps.\<close>

datatype error =
    FailedToGetPropertyValue
  | FailedToReadBody
  | FailedToUnmarshalResponse
  | FailedToCreateRequest
  | FailedToMakeRequest
  | FailedToRunAfplay
  | FailedToGetCurrentValue error
  | FailedToUpdateProperty error
  | FailedToPlaySound error
  | UnexpectedCurrentMuteValue f64

definition get :: "MotuClient \<Rightarrow> string \<Rightarrow> error + f64" where
  "get m property =
     (case http_get m property of
        RequestFails \<Rightarrow> Inl FailedToGetPropertyValue
      | BodyFails \<Rightarrow> Inl FailedToReadBody
      | NotJSON \<Rightarrow> Inl FailedToUnmarshalResponse
      | Value v \<Rightarrow> Inr v)"

text \<open>\<^verbatim>\<open>patch\<close> returns nil (\<open>None\<close>) once the request has been made.\<close>

definition patch :: "MotuClient \<Rightarrow> string \<Rightarrow> f64 \<Rightarrow> world \<Rightarrow> error option \<times> world" where
  "patch m property v w =
     (case http_patch m property v of
        NotCreated \<Rightarrow> (Some FailedToCreateRequest, w)
      | NotMade \<Rightarrow> (Some FailedToMakeRequest, w)
      | Delivered \<Rightarrow> (None, w\<lparr>patches := patches w @ [(property, v)]\<rparr>))"

definition playSound :: "world \<Rightarrow> error option \<times> world" where
  "playSound w =
     (if afplay_fails w then (Some FailedToRunAfplay, w)
      else (None, w\<lparr>sounds := Suc (sounds w)\<rparr>))"

text \<open>\<^verbatim>\<open>Mute\<close>. The new value starts as 0; the case 0 of the switch sets it to 1, the
  case 1 is empty (a Go case does not fall through), any other value returns an error.\<close>

definition Mute :: "MotuClient \<Rightarrow> Device \<Rightarrow> world \<Rightarrow> error option \<times> world" where
  "Mute m d w =
     (case get m (MuteProperty d) of
        Inl err \<Rightarrow> (Some (FailedToGetCurrentValue err), w)
      | Inr current \<Rightarrow>
          (case (if f_eq current (Fin 0) then Inr (Fin 1)
                 else if f_eq current (Fin 1) then Inr (Fin 0)
                 else Inl (UnexpectedCurrentMuteValue current)) of
             Inl err \<Rightarrow> (Some err, w)
           | Inr newValue \<Rightarrow>
               (case patch m (MuteProperty d) newValue w of
                  (Some err, w') \<Rightarrow> (Some (FailedToUpdateProperty err), w')
                | (None, w') \<Rightarrow> (None, w'))))"

text \<open>\<^verbatim>\<open>IncDec\<close>.\<close>

definition IncDec ::
  "MotuClient \<Rightarrow> Device \<Rightarrow> bool \<Rightarrow> world \<Rightarrow> error option outcome \<times> world" where
  "IncDec m d inc w =
     (case get m (Property d) of
        Inl err \<Rightarrow> (Return (Some (FailedToGetCurrentValue err)), w)
      | Inr current \<Rightarrow>
          (case (if Scale d = scaleLinear then Return (newVolumeLinear d current inc)
                 else if Scale d = scaleLog then newVolumeLog d current inc
                 else Panic ''unknown scale'') of
             Panic msg \<Rightarrow> (Panic msg, w)
           | Return newValue \<Rightarrow>
               (case patch m (Property d) newValue w of
                  (Some err, w') \<Rightarrow> (Return (Some (FailedToUpdateProperty err)), w')
                | (None, w') \<Rightarrow>
                    (case playSound w' of
                       (Some err, w'') \<Rightarrow> (Return (Some (FailedToPlaySound err)), w'')
                     | (None, w'') \<Rightarrow> (Return None, w'')))))"

subsection \<open>Concrete clients and states used in the examples\<close>

text \<open>A client whose every GET yields the given reply and whose every PATCH is
  delivered, and the state before any effect.\<close>

definition example_client :: "reply \<Rightarrow> MotuClient" where
  "example_client r = \<lparr> http_get = (\<lambda>p. r), http_patch = (\<lambda>p v. Delivered) \<rparr>"

definition world0 :: world where
  "world0 = \<lparr> patches = [], afplay_fails = False, sounds = 0 \<rparr>"

section \<open>Auxiliary facts\<close>

lemma math_Max_Fin: "math_Max (Fin a) (Fin b) = Fin (max a b)"
  by (simp add: math_Max_def max_def)

lemma math_Min_Fin: "math_Min (Fin a) (Fin b) = Fin (min a b)"
  by (simp add: math_Min_def min_def)

lemma f_sub_Fin: "f_sub (Fin a) (Fin b) = Fin (a - b)"
  by (simp add: f_sub_def)

lemma newVolumeLinear_Fin:
  assumes "Min_f d = Fin lo" "Max_f d = Fin hi"
  shows "newVolumeLinear d (Fin c) inc =
     (if inc then Fin (min (max (of_int \<lceil>c\<rceil> + (hi - lo) / 16) lo) hi)
      else if of_int \<lceil>c\<rceil> - (hi - lo) / 16 \<le> lo then ZeroVolume d
      else Fin (min (max (of_int \<lceil>c\<rceil> - (hi - lo) / 16) lo) hi))"
  using assms
  by (simp add: newVolumeLinear_def volumeDenominations_def f_sub_Fin math_Max_Fin
      math_Min_Fin Let_def)

lemma devices_linear:
  "devices name = Some d \<Longrightarrow> Scale d = scaleLinear \<Longrightarrow> d = main_device"
  by (auto simp: devices_def computer_device_def scaleLinear_def scaleLog_def
      split: if_splits)

lemma is_int_2: "is_int 2" "\<not> is_odd_int 2"
  by (simp_all add: is_int_def is_odd_int_def)

lemma math_Pow_2: "math_Pow (Fin r) (Fin 2) = Fin (r ^ 2)"
  by (auto simp: math_Pow_def is_int_2)

lemma math_Pow_10: "math_Pow (Fin 10) (Fin y) = Fin (10 powr y)"
  by (simp add: math_Pow_def)

lemma ratio_to_dB_Fin:
  "ratio_to_dB (Fin r) = (if r = 0 then NInf else Fin (10 * log 10 (r ^ 2)))"
  by (simp add: ratio_to_dB_def math_Pow_2 inf_of_def)


lemma dB_to_ratio_Fin: "dB_to_ratio (Fin y) = Fin (sqrt (10 powr (y / 10)))"
  by (simp add: dB_to_ratio_def math_Pow_10)

lemma log10_millionth: "log 10 ((1 / 1000) ^ 2) = - 6"
proof -
  have e: "(1 / 1000 :: real) ^ 2 = inverse (10 ^ 6)"
    by (simp add: power2_eq_square)
  have "log 10 (inverse (10 ^ 6)) = - real 6"
    unfolding log_inverse by (subst log_pow_cancel) simp_all
  then show ?thesis unfolding e by simp
qed








section \<open>The mute command\<close>

text \<open>
  C1, as the code has it. \<^verbatim>\<open>Mute\<close> toggles: when the mute property reads 0 it writes 1,
  and when it reads 1 it writes 0, so for a current value \<open>c\<close> in \<open>{0, 1}\<close> the value
  written is \<open>1 - c\<close>. Here the PATCH is one that is delivered.
\<close>

theorem Mute_toggles:
  assumes "get m (MuteProperty d) = Inr (Fin c)"
    and "c = 0 \<or> c = 1"
    and "http_patch m (MuteProperty d) (Fin (1 - c)) = Delivered"
  shows "Mute m d w = (None, w\<lparr>patches := patches w @ [(MuteProperty d, Fin (1 - c))]\<rparr>)"
  using assms by (auto simp: Mute_def patch_def)

theorem Mute_toggles_witness:
  "get (example_client (Value (Fin 0))) (MuteProperty computer_device) = Inr (Fin 0)
   \<and> ((0::real) = 0 \<or> (0::real) = 1)
   \<and> http_patch (example_client (Value (Fin 0))) (MuteProperty computer_device) (Fin (1 - 0))
       = Delivered
   \<and> Mute (example_client (Value (Fin 0))) computer_device world0
       = (None, world0\<lparr>patches := patches world0 @ [(MuteProperty computer_device, Fin (1 - 0))]\<rparr>)"
  using Mute_toggles [of "example_client (Value (Fin 0))" computer_device 0 world0]
  by (simp add: get_def example_client_def)

text \<open>
  C1, as the claim has it, fails: on the device \<open>main\<close> with the mute property reading 1,
  the one value written is 0, not 1.
\<close>

theorem Mute_when_muted_counterexample:
  "patches (snd (Mute (example_client (Value (Fin 1))) main_device world0))
     = [(''datastore/mix/main/0/matrix/mute'', Fin 0)]
   \<and> patches (snd (Mute (example_client (Value (Fin 1))) main_device world0))
     \<noteq> [(''datastore/mix/main/0/matrix/mute'', Fin 1)]"
  by (simp add: Mute_def get_def patch_def example_client_def main_device_def world0_def)

text \<open>
  C6. When the mute property reads a value that is neither 0 nor 1, \<^verbatim>\<open>Mute\<close> returns
  the error for an unexpected current value and the state is the one it started in: no
  PATCH has been made.
\<close>

theorem Mute_unexpected_value:
  assumes "get m (MuteProperty d) = Inr c"
    and "\<not> f_eq c (Fin 0)"
    and "\<not> f_eq c (Fin 1)"
  shows "Mute m d w = (Some (UnexpectedCurrentMuteValue c), w)"
  using assms by (simp add: Mute_def)

theorem Mute_unexpected_value_witness:
  "get (example_client (Value (Fin 0.5))) (MuteProperty main_device) = Inr (Fin 0.5)
   \<and> \<not> f_eq (Fin 0.5) (Fin 0)
   \<and> \<not> f_eq (Fin 0.5) (Fin 1)
   \<and> Mute (example_client (Value (Fin 0.5))) main_device world0
       = (Some (UnexpectedCurrentMuteValue (Fin 0.5)), world0)"
  using Mute_unexpected_value [of "example_client (Value (Fin 0.5))" main_device "Fin 0.5" world0]
  by (simp add: get_def example_client_def)

section \<open>Stepping on the linear scale\<close>

text \<open>
  C4. For a descriptor with \<open>Min = -50\<close> and \<open>Max = 0\<close>, an increase from the current
  value \<open>-10\<close> returns \<open>-6.875\<close>.
\<close>

theorem newVolumeLinear_scenario:
  assumes "Min_f d = Fin (- 50)" and "Max_f d = Fin 0"
  shows "newVolumeLinear d (Fin (- 10)) True = Fin (- 6.875)"
  using assms by (simp add: newVolumeLinear_Fin)

theorem newVolumeLinear_scenario_witness:
  "Min_f main_device = Fin (- 50) \<and> Max_f main_device = Fin 0
   \<and> newVolumeLinear main_device (Fin (- 10)) True = Fin (- 6.875)"
  using newVolumeLinear_scenario [of main_device] by (simp add: main_device_def)

text \<open>
  C5. For every linear device \<open>d\<close> of the table and every value \<open>v\<close> with
  \<open>Min \<le> v \<le> Max\<close>, the result of an increase is at least the ceiling of \<open>v\<close> and at
  most \<open>Max\<close>.
\<close>

theorem newVolumeLinear_increase_bounds:
  assumes "devices name = Some d" and "Scale d = scaleLinear"
    and "f_le (Min_f d) v" and "f_le v (Max_f d)"
  shows "f_le (math_Ceil v) (newVolumeLinear d v True)
         \<and> f_le (newVolumeLinear d v True) (Max_f d)"
proof -
  have d: "d = main_device"
    using assms(1,2) by (rule devices_linear)
  have lo: "Min_f d = Fin (- 50)" and hi: "Max_f d = Fin 0"
    by (simp_all add: d main_device_def)
  from assms(3,4) obtain c where v: "v = Fin c" and c: "- 50 \<le> c" "c \<le> 0"
    unfolding lo hi by (cases v) auto
  have "\<lceil>c\<rceil> \<le> 0"
    using c by (simp add: ceiling_le_iff)
  then have "real_of_int \<lceil>c\<rceil> \<le> 0"
    by simp
  then show ?thesis
    unfolding v by (simp add: newVolumeLinear_Fin [OF lo hi] hi)
qed

theorem newVolumeLinear_increase_bounds_witness:
  "devices ''main'' = Some main_device \<and> Scale main_device = scaleLinear
   \<and> f_le (Min_f main_device) (Fin (- 10.5)) \<and> f_le (Fin (- 10.5)) (Max_f main_device)
   \<and> f_le (math_Ceil (Fin (- 10.5))) (newVolumeLinear main_device (Fin (- 10.5)) True)
   \<and> f_le (newVolumeLinear main_device (Fin (- 10.5)) True) (Max_f main_device)"
  using newVolumeLinear_increase_bounds [of "''main''" main_device "Fin (- 10.5)"]
  by (simp add: devices_def main_device_def)

text \<open>
  C10. For a linear descriptor with \<open>Min \<le> Max\<close> and a current value whose ceiling plus
  the step is at most \<open>Min\<close>, an increase returns \<open>Min\<close>; the value \<open>ZeroVolume\<close> is not
  returned on this path. The hypothesis is stated with the program's own arithmetic, so
  it covers the infinities as well.
\<close>

theorem newVolumeLinear_increase_from_below:
  assumes "f_le (f_add (math_Ceil current)
                   (f_div (f_sub (Max_f d) (Min_f d)) volumeDenominations)) (Min_f d)"
    and "f_le (Min_f d) (Max_f d)"
  shows "newVolumeLinear d current True = Min_f d"
  using assms
  by (cases "Min_f d"; cases "Max_f d"; cases current)
     (simp_all add: newVolumeLinear_def volumeDenominations_def f_sub_def math_Min_def
       math_Max_def inf_of_def Let_def split: if_splits)

theorem newVolumeLinear_increase_from_below_witness:
  "f_le (f_add (math_Ceil (ZeroVolume main_device))
           (f_div (f_sub (Max_f main_device) (Min_f main_device)) volumeDenominations))
        (Min_f main_device)
   \<and> f_le (Min_f main_device) (Max_f main_device)
   \<and> ZeroVolume main_device = Fin (- 127)
   \<and> newVolumeLinear main_device (ZeroVolume main_device) True = Fin (- 50)"
  using newVolumeLinear_increase_from_below [of "ZeroVolume main_device" main_device]
  by (simp add: main_device_def volumeDenominations_def f_sub_Fin)

section \<open>Stepping on the logarithmic scale\<close>

text \<open>
  C8. For every amplitude ratio \<open>r > 0\<close>, and so for every \<open>r\<close> in \<open>(0, 1]\<close>, the
  conversion to decibels followed by the conversion back gives \<open>r\<close> again. This is the
  equation over the reals; the rounding of \<^verbatim>\<open>float64\<close> is not part of the model.
\<close>

theorem dB_roundtrip:
  assumes "0 < r"
  shows "dB_to_ratio (ratio_to_dB (Fin r)) = Fin r"
  using assms by (simp add: ratio_to_dB_Fin dB_to_ratio_Fin)

theorem dB_roundtrip_witness:
  "(0::real) < 1 / 2 \<and> dB_to_ratio (ratio_to_dB (Fin (1 / 2))) = Fin (1 / 2)"
  using dB_roundtrip [of "1 / 2"] by simp

text \<open>
  C3. On a decrease whose stepped decibel value is at or below \<open>Min\<close>, a descriptor
  whose \<open>ZeroVolume\<close> is not 0 makes \<^verbatim>\<open>newVolumeLog\<close> panic: no value is returned.
  When such a descriptor has the logarithmic scale, \<^verbatim>\<open>IncDec\<close> panics with it, in the
  state it started in.
\<close>

theorem newVolumeLog_zero_volume_panics:
  assumes "f_le (f_sub (math_Ceil (ratio_to_dB current))
                   (f_div (f_sub (Max_f d) (Min_f d)) volumeDenominations)) (Min_f d)"
    and "f_ne (ZeroVolume d) (Fin 0)"
  shows "newVolumeLog d current False = Panic ''logarithmic zero volume should be zero''
         \<and> (Scale d = scaleLog \<and> get m (Property d) = Inr current \<longrightarrow>
              IncDec m d False w = (Panic ''logarithmic zero volume should be zero'', w))"
  using assms
  by (simp add: newVolumeLog_def IncDec_def Let_def scaleLog_def scaleLinear_def)

text \<open>The witness is the device \<open>computer\<close> with \<open>ZeroVolume\<close> set to 5, at the ratio
  0.001, which is \<open>-60\<close> dB: one step of 4 dB down is \<open>-64\<close>, the minimum.\<close>

theorem newVolumeLog_zero_volume_panics_witness:
  "f_le (f_sub (math_Ceil (ratio_to_dB (Fin (1 / 1000))))
          (f_div (f_sub (Max_f (computer_device\<lparr>ZeroVolume := Fin 5\<rparr>))
                        (Min_f (computer_device\<lparr>ZeroVolume := Fin 5\<rparr>))) volumeDenominations))
        (Min_f (computer_device\<lparr>ZeroVolume := Fin 5\<rparr>))
   \<and> f_ne (ZeroVolume (computer_device\<lparr>ZeroVolume := Fin 5\<rparr>)) (Fin 0)
   \<and> Scale (computer_device\<lparr>ZeroVolume := Fin 5\<rparr>) = scaleLog
   \<and> get (example_client (Value (Fin (1 / 1000))))
          (Property (computer_device\<lparr>ZeroVolume := Fin 5\<rparr>)) = Inr (Fin (1 / 1000))
   \<and> newVolumeLog (computer_device\<lparr>ZeroVolume := Fin 5\<rparr>) (Fin (1 / 1000)) False
       = Panic ''logarithmic zero volume should be zero''
   \<and> IncDec (example_client (Value (Fin (1 / 1000)))) (computer_device\<lparr>ZeroVolume := Fin 5\<rparr>)
        False world0
       = (Panic ''logarithmic zero volume should be zero'', world0)"
  using newVolumeLog_zero_volume_panics
    [of "Fin (1 / 1000)" "computer_device\<lparr>ZeroVolume := Fin 5\<rparr>"
        "example_client (Value (Fin (1 / 1000)))" world0]
  by (simp add: computer_device_def ratio_to_dB_Fin log10_millionth volumeDenominations_def
      f_sub_Fin f_ne_def get_def example_client_def)




section \<open>Snapping to the zero volume\<close>




section \<open>The increment and decrement command\<close>

text \<open>
  C7, as the code has it. \<^verbatim>\<open>IncDec\<close> reads the current value before it looks at the
  scale. For a descriptor whose scale is neither linear nor logarithmic: when the read
  succeeds, \<^verbatim>\<open>IncDec\<close> panics with "unknown scale"; when the read fails, it returns the
  error of the read. In both cases the state is the one it started in: no value has been
  computed or written.
\<close>

theorem IncDec_unknown_scale:
  assumes "Scale d \<noteq> scaleLinear" and "Scale d \<noteq> scaleLog"
  shows "IncDec m d inc w =
     (case get m (Property d) of
        Inl err \<Rightarrow> Return (Some (FailedToGetCurrentValue err))
      | Inr current \<Rightarrow> Panic ''unknown scale'', w)"
  using assms by (simp add: IncDec_def split: sum.splits)

theorem IncDec_unknown_scale_witness:
  "Scale (main_device\<lparr>Scale := ''exp''\<rparr>) \<noteq> scaleLinear
   \<and> Scale (main_device\<lparr>Scale := ''exp''\<rparr>) \<noteq> scaleLog
   \<and> IncDec (example_client (Value (Fin (- 10)))) (main_device\<lparr>Scale := ''exp''\<rparr>) True world0
       = (Panic ''unknown scale'', world0)"
  using IncDec_unknown_scale
    [of "main_device\<lparr>Scale := ''exp''\<rparr>" "example_client (Value (Fin (- 10)))" True world0]
  by (simp add: scaleLinear_def scaleLog_def get_def example_client_def)

text \<open>
  C7, as the claim has it, fails when the device cannot be reached: the descriptor has
  an unknown scale, and \<^verbatim>\<open>IncDec\<close> returns an error value instead of panicking.
\<close>

theorem IncDec_unknown_scale_counterexample:
  "Scale (main_device\<lparr>Scale := ''exp''\<rparr>) \<noteq> scaleLinear
   \<and> Scale (main_device\<lparr>Scale := ''exp''\<rparr>) \<noteq> scaleLog
   \<and> IncDec (example_client RequestFails) (main_device\<lparr>Scale := ''exp''\<rparr>) True world0
       = (Return (Some (FailedToGetCurrentValue FailedToGetPropertyValue)), world0)"
  by (simp add: IncDec_def get_def example_client_def scaleLinear_def scaleLog_def)

end
